theory Spec2Isabelle
  imports Complex_Main "HOL-Library.Word" "HOL-Library.Multiset" "HOL-Library.Monad_Syntax"
begin

section \<open>Max pooling of \<open>pooling.cpp\<close>: memory, loops and the four operators\<close>

text \<open>
  The file \<open>src/bits/pooling.cpp\<close> holds four operators: \<open>maxPooling_cpu\<close>,
  \<open>maxPooling_gpu\<close> (with its kernel), \<open>maxPoolingBackward_cpu\<close> and
  \<open>maxPoolingBackward_gpu\<close> (with its kernel).

  Scalars (\<open>float\<close>, \<open>double\<close>) are modelled as \<open>real\<close>: finite values with exact
  addition and the usual order. NaN, the infinities and rounding are outside the model.
  Index values (\<open>int\<close>, \<open>size_t\<close>) of the operators are modelled as \<open>nat\<close>: the
  dimensions are taken in the range where no index expression leaves the C++ \<open>int\<close>;
  the narrowing from \<open>size_t\<close> to \<open>int\<close> of the pooled dimensions is modelled on
  machine words in the section on the shape law.
  A buffer is a list of scalars, a pointer into it is an offset, and every element
  access is checked against the length of the buffer: an access out of range is \<open>None\<close>.
\<close>

subsection \<open>Buffers\<close>

type_synonym buffer = "real list"

definition rd :: "buffer \<Rightarrow> nat \<Rightarrow> real option" where
  "rd b i = (if i < length b then Some (b ! i) else None)"

definition wr :: "buffer \<Rightarrow> nat \<Rightarrow> real \<Rightarrow> buffer option" where
  "wr b i v = (if i < length b then Some (b[i := v]) else None)"

text \<open>\<open>FLT_MAX\<close> and \<open>DBL_MAX\<close> of the C header \<open>cfloat\<close>: the largest finite \<open>float\<close> and \<open>double\<close>.\<close>

definition FLT_MAX :: real where
  "FLT_MAX = 340282346638528859811704183484516925440"

definition DBL_MAX :: real where
  "DBL_MAX = 2 ^ 1024 - 2 ^ 971"

subsection \<open>Loops\<close>

text \<open>A loop body run once for each element of a list, in order; it stops at the first failed access.\<close>

primrec for_each :: "'i list \<Rightarrow> ('i \<Rightarrow> 's \<Rightarrow> 's option) \<Rightarrow> 's \<Rightarrow> 's option" where
  "for_each [] body s = Some s"
| "for_each (i # is) body s = (case body i s of None \<Rightarrow> None | Some s' \<Rightarrow> for_each is body s')"

text \<open>\<open>for (int i = lo; i < hi; ++i) body\<close>\<close>

definition for_loop :: "nat \<Rightarrow> nat \<Rightarrow> (nat \<Rightarrow> 's \<Rightarrow> 's option) \<Rightarrow> 's \<Rightarrow> 's option" where
  "for_loop lo hi body s = for_each [lo..<hi] body s"

subsection \<open>Forward pooling, sequential (lines 17-47)\<close>

record fwd_cpu =
  pooled_mem :: buffer
  data_p :: nat
  pooled_p :: nat

text \<open>Lines 36-41: the scan of one window, a running maximum kept in the pooled cell itself.\<close>

definition maxPooling_cpu_window ::
  "buffer \<Rightarrow> nat \<Rightarrow> nat \<Rightarrow> nat \<Rightarrow> nat \<Rightarrow> nat \<Rightarrow> nat \<Rightarrow> nat \<Rightarrow> nat \<Rightarrow> nat \<Rightarrow> nat \<Rightarrow> buffer \<Rightarrow> buffer option" where
  "maxPooling_cpu_window data dp pp width pooledWidth ph pw hstart hend wstart wend =
     for_loop hstart hend (\<lambda>h.
       for_loop wstart wend (\<lambda>w pooled. do {
         a \<leftarrow> rd pooled (pp + (ph * pooledWidth + pw));
         b \<leftarrow> rd data (dp + (h * width + w));
         wr pooled (pp + (ph * pooledWidth + pw)) (max a b)
       }))"

text \<open>Lines 30-43: all output cells of one channel.\<close>

definition maxPooling_cpu_plane ::
  "buffer \<Rightarrow> nat \<Rightarrow> nat \<Rightarrow> nat \<Rightarrow> nat \<Rightarrow> nat \<Rightarrow> nat \<Rightarrow> nat \<Rightarrow> nat \<Rightarrow> buffer \<Rightarrow> buffer option" where
  "maxPooling_cpu_plane data dp pp width height poolSize poolStride pooledWidth pooledHeight =
     for_loop 0 pooledHeight (\<lambda>ph.
       for_loop 0 pooledWidth (\<lambda>pw.
         let hstart = ph * poolStride;
             wstart = pw * poolStride;
             hend = min (hstart + poolSize) height;
             wend = min (wstart + poolSize) width
         in maxPooling_cpu_window data dp pp width pooledWidth ph pw hstart hend wstart wend))"

definition maxPooling_cpu ::
  "buffer \<Rightarrow> buffer \<Rightarrow> nat \<Rightarrow> nat \<Rightarrow> nat \<Rightarrow> nat \<Rightarrow> nat \<Rightarrow> buffer option" where
  "maxPooling_cpu pooled data width height depth poolSize poolStride =
     (let pooledWidth = (width - poolSize) div poolStride + 1;
          pooledHeight = (height - poolSize) div poolStride + 1
      in map_option pooled_mem
           (for_loop 0 depth (\<lambda>c st. do {
                p \<leftarrow> maxPooling_cpu_plane data (data_p st) (pooled_p st) width height
                       poolSize poolStride pooledWidth pooledHeight (pooled_mem st);
                Some \<lparr>pooled_mem = p,
                      data_p = data_p st + width * height,
                      pooled_p = pooled_p st + pooledWidth * pooledHeight\<rparr>
              })
              \<lparr>pooled_mem = pooled, data_p = 0, pooled_p = 0\<rparr>))"

subsection \<open>Kernel launches\<close>

text \<open>
  Modelled from the spec: \<open>CAFFE_GET_BLOCKS\<close> of \<open>caffe-scraps.hpp\<close>, which is not among
  the sources. The spec says that the total unit count is rounded up to a whole number
  of blocks; the block size \<open>CAFFE_CUDA_NUM_THREADS\<close> is a parameter.
\<close>

definition CAFFE_GET_BLOCKS :: "nat \<Rightarrow> nat \<Rightarrow> nat" where
  "CAFFE_GET_BLOCKS numThreads n = (n + numThreads - 1) div numThreads"

text \<open>
  A launch \<open><<<gridDim, blockDim>>>\<close> runs the kernel once for every pair
  \<open>(blockIdx, threadIdx)\<close>. The threads of the kernels below touch shared memory only by
  a write to a slot of their own or by \<open>atomicAdd\<close>, so a run is a sequence of the
  threads in some order; the order is a parameter of the operators.
\<close>

definition launch_order :: "nat \<Rightarrow> nat \<Rightarrow> (nat \<times> nat) list \<Rightarrow> bool" where
  "launch_order gridDim blockDim sched \<longleftrightarrow>
     mset sched = mset (List.product [0..<gridDim] [0..<blockDim])"

definition launch ::
  "(nat \<times> nat) list \<Rightarrow> (nat \<Rightarrow> nat \<Rightarrow> 's \<Rightarrow> 's option) \<Rightarrow> 's \<Rightarrow> 's option" where
  "launch sched kern s = for_each sched (\<lambda>(blockIdx, threadIdx). kern blockIdx threadIdx) s"

subsection \<open>Forward pooling, parallel (lines 71-116)\<close>

definition maxPooling_gpu_kernel ::
  "nat \<Rightarrow> nat \<Rightarrow> nat \<Rightarrow> nat \<Rightarrow> buffer \<Rightarrow> nat \<Rightarrow> nat \<Rightarrow> nat \<Rightarrow> nat \<Rightarrow> nat \<Rightarrow> nat \<Rightarrow> nat \<Rightarrow> nat
     \<Rightarrow> buffer \<Rightarrow> buffer option" where
  "maxPooling_gpu_kernel blockDim blockIdx threadIdx nthreads bottom_data num channels height
       width pooled_height pooled_width ksize stride top_data =
     (let index = threadIdx + blockIdx * blockDim in
      if index < nthreads then
        let pw = index mod pooled_width;
            ph = (index div pooled_width) mod pooled_height;
            c = (index div pooled_width div pooled_height) mod channels;
            n = index div pooled_width div pooled_height div channels;
            hstart = ph * stride;
            hend = min (hstart + ksize) height;
            wstart = pw * stride;
            wend = min (wstart + ksize) width;
            bottom_p = (n * channels + c) * height * width
        in do {
          maxval \<leftarrow> for_loop hstart hend (\<lambda>h.
                      for_loop wstart wend (\<lambda>w maxval. do {
                        x \<leftarrow> rd bottom_data (bottom_p + (h * width + w));
                        Some (max maxval x)
                      })) (- FLT_MAX);
          wr top_data index maxval
        }
      else Some top_data)"

definition maxPooling_gpu ::
  "nat \<Rightarrow> (nat \<times> nat) list \<Rightarrow> buffer \<Rightarrow> buffer \<Rightarrow> nat \<Rightarrow> nat \<Rightarrow> nat \<Rightarrow> nat \<Rightarrow> nat \<Rightarrow> buffer option" where
  "maxPooling_gpu numThreads sched pooled data width height depth poolSize poolStride =
     (let pooledWidth = (width - poolSize) div poolStride + 1;
          pooledHeight = (height - poolSize) div poolStride + 1;
          count = pooledWidth * pooledHeight * depth
      in launch sched (\<lambda>blockIdx threadIdx.
           maxPooling_gpu_kernel numThreads blockIdx threadIdx count data 1 depth height width
             pooledHeight pooledWidth poolSize poolStride) pooled)"

subsection \<open>Backward pooling, sequential (lines 140-179)\<close>

text \<open>
  Lines 162-171 and, word for word, lines 228-237: the scan of one window for the
  position of its maximum, from a given first candidate. \<open>p\<close> is the plane's offset.
\<close>

definition argmax_scan ::
  "buffer \<Rightarrow> nat \<Rightarrow> nat \<Rightarrow> nat \<Rightarrow> nat \<Rightarrow> nat \<Rightarrow> nat \<Rightarrow> real \<times> nat \<Rightarrow> (real \<times> nat) option" where
  "argmax_scan data p width hstart hend wstart wend =
     for_loop hstart hend (\<lambda>h.
       for_loop wstart wend (\<lambda>w (bestValue, bestIndex).
         let index = h * width + w in do {
           x \<leftarrow> rd data (p + index);
           Some (if x > bestValue then (x, index) else (bestValue, bestIndex))
         }))"

record bwd_cpu =
  dzdx_mem :: buffer
  bdata_p :: nat
  dzdx_p :: nat
  dzdy_p :: nat

text \<open>Lines 156-172: one output cell.\<close>

definition maxPoolingBackward_cpu_cell ::
  "buffer \<Rightarrow> buffer \<Rightarrow> nat \<Rightarrow> nat \<Rightarrow> nat \<Rightarrow> nat \<Rightarrow> nat \<Rightarrow> nat \<Rightarrow> nat \<Rightarrow> nat \<Rightarrow> nat \<Rightarrow> nat
     \<Rightarrow> buffer \<Rightarrow> buffer option" where
  "maxPoolingBackward_cpu_cell data dzdy dp xp yp width height poolSize poolStride pooledWidth ph pw dzdx =
     (let hstart = ph * poolStride;
          wstart = pw * poolStride;
          hend = min (hstart + poolSize) height;
          wend = min (wstart + poolSize) width;
          bestIndex = hstart * width + wstart
      in do {
        bestValue \<leftarrow> rd data (dp + bestIndex);
        (bestValue, bestIndex) \<leftarrow> argmax_scan data dp width hstart hend wstart wend (bestValue, bestIndex);
        g \<leftarrow> rd dzdy (yp + (ph * pooledWidth + pw));
        old \<leftarrow> rd dzdx (xp + bestIndex);
        wr dzdx (xp + bestIndex) (old + g)
      })"

definition maxPoolingBackward_cpu ::
  "buffer \<Rightarrow> buffer \<Rightarrow> buffer \<Rightarrow> nat \<Rightarrow> nat \<Rightarrow> nat \<Rightarrow> nat \<Rightarrow> nat \<Rightarrow> buffer option" where
  "maxPoolingBackward_cpu dzdx data dzdy width height depth poolSize poolStride =
     (let pooledWidth = (width - poolSize) div poolStride + 1;
          pooledHeight = (height - poolSize) div poolStride + 1
      in map_option dzdx_mem
           (for_loop 0 depth (\<lambda>c st. do {
                x \<leftarrow> for_loop 0 pooledHeight (\<lambda>ph.
                       for_loop 0 pooledWidth (\<lambda>pw.
                         maxPoolingBackward_cpu_cell data dzdy (bdata_p st) (dzdx_p st) (dzdy_p st)
                           width height poolSize poolStride pooledWidth ph pw)) (dzdx_mem st);
                Some \<lparr>dzdx_mem = x,
                      bdata_p = bdata_p st + width * height,
                      dzdx_p = dzdx_p st + width * height,
                      dzdy_p = dzdy_p st + pooledWidth * pooledHeight\<rparr>
              })
              \<lparr>dzdx_mem = dzdx, bdata_p = 0, dzdx_p = 0, dzdy_p = 0\<rparr>))"

subsection \<open>Backward pooling, parallel (lines 205-264)\<close>

text \<open>\<open>atomicAdd(address, val)\<close>: one indivisible read, add and write.\<close>

definition atomicAdd :: "buffer \<Rightarrow> nat \<Rightarrow> real \<Rightarrow> buffer option" where
  "atomicAdd mem address val = do { old \<leftarrow> rd mem address; wr mem address (old + val) }"

definition maxPoolingBackward_gpu_kernel ::
  "nat \<Rightarrow> nat \<Rightarrow> nat \<Rightarrow> nat \<Rightarrow> buffer \<Rightarrow> buffer \<Rightarrow> nat \<Rightarrow> nat \<Rightarrow> nat \<Rightarrow> nat \<Rightarrow> nat \<Rightarrow> nat \<Rightarrow> nat \<Rightarrow> nat
     \<Rightarrow> buffer \<Rightarrow> buffer option" where
  "maxPoolingBackward_gpu_kernel blockDim blockIdx threadIdx nthreads bottom_data top_diff num
       channels height width pooled_height pooled_width ksize stride bottom_diff =
     (let index = threadIdx + blockIdx * blockDim in
      if index < nthreads then
        let pw = index mod pooled_width;
            ph = (index div pooled_width) mod pooled_height;
            c = (index div pooled_width div pooled_height) mod channels;
            n = index div pooled_width div pooled_height div channels;
            hstart = ph * stride;
            hend = min (hstart + ksize) height;
            wstart = pw * stride;
            wend = min (wstart + ksize) width;
            bestValue = - FLT_MAX;
            bestIndex = 0;
            bottom_p = (n * channels + c) * height * width
        in do {
          (bestValue, bestIndex) \<leftarrow> argmax_scan bottom_data bottom_p width hstart hend wstart wend
                                     (bestValue, bestIndex);
          g \<leftarrow> rd top_diff index;
          atomicAdd bottom_diff bestIndex g
        }
      else Some bottom_diff)"

definition maxPoolingBackward_gpu ::
  "nat \<Rightarrow> (nat \<times> nat) list \<Rightarrow> buffer \<Rightarrow> buffer \<Rightarrow> buffer \<Rightarrow> nat \<Rightarrow> nat \<Rightarrow> nat \<Rightarrow> nat \<Rightarrow> nat
     \<Rightarrow> buffer option" where
  "maxPoolingBackward_gpu numThreads sched dzdx data dzdy width height depth poolSize poolStride =
     (let pooledWidth = (width - poolSize) div poolStride + 1;
          pooledHeight = (height - poolSize) div poolStride + 1;
          count = pooledWidth * pooledHeight * depth
      in launch sched (\<lambda>blockIdx threadIdx.
           maxPoolingBackward_gpu_kernel numThreads blockIdx threadIdx count data dzdy 1 depth
             height width pooledHeight pooledWidth poolSize poolStride) dzdx)"

subsection \<open>The shape law on machine integers (lines 26-27, 111-112, 150-151, 259-260)\<close>






subsection \<open>The contracts in the words of the specification\<close>

text \<open>
  The positions of a window inside its plane, in row-major scan order (rows outer,
  columns inner), and the window of the output cell \<open>(ph, pw)\<close> after clipping.
\<close>

definition window_indices :: "nat \<Rightarrow> nat \<Rightarrow> nat \<Rightarrow> nat \<Rightarrow> nat \<Rightarrow> nat list" where
  "window_indices width hstart hend wstart wend =
     concat (map (\<lambda>h. map (\<lambda>w. h * width + w) [wstart..<wend]) [hstart..<hend])"

definition cell_window :: "nat \<Rightarrow> nat \<Rightarrow> nat \<Rightarrow> nat \<Rightarrow> nat \<Rightarrow> nat \<Rightarrow> nat list" where
  "cell_window width height poolSize poolStride ph pw =
     window_indices width (ph * poolStride) (min (ph * poolStride + poolSize) height)
       (pw * poolStride) (min (pw * poolStride + poolSize) width)"

text \<open>The forward contract: the maximum of the data over the window of the cell.\<close>

definition pooled_reference :: "buffer \<Rightarrow> nat \<Rightarrow> nat \<Rightarrow> nat \<Rightarrow> nat \<Rightarrow> nat \<Rightarrow> nat \<Rightarrow> nat \<Rightarrow> real" where
  "pooled_reference data width height poolSize poolStride c ph pw =
     Max (set (map (\<lambda>i. data ! (c * width * height + i))
                 (cell_window width height poolSize poolStride ph pw)))"

text \<open>
  The arg-max location of a window: the first position in scan order whose value no
  position of the window exceeds. \<open>p\<close> is the offset of the plane.
\<close>

definition argmax_first :: "buffer \<Rightarrow> nat \<Rightarrow> nat list \<Rightarrow> nat option" where
  "argmax_first data p idxs = find (\<lambda>i. \<forall>j \<in> set idxs. data ! (p + j) \<le> data ! (p + i)) idxs"

text \<open>
  The backward contract: for each output cell, channel by channel, row by row, the
  gradient of the cell is added to \<open>dzdx\<close> at the arg-max location of its window.
\<close>

definition output_cells :: "nat \<Rightarrow> nat \<Rightarrow> nat \<Rightarrow> (nat \<times> nat \<times> nat) list" where
  "output_cells depth pooledHeight pooledWidth =
     concat (map (\<lambda>c. concat (map (\<lambda>ph. map (\<lambda>pw. (c, ph, pw)) [0..<pooledWidth]) [0..<pooledHeight]))
                 [0..<depth])"

definition backward_reference_cell ::
  "buffer \<Rightarrow> buffer \<Rightarrow> nat \<Rightarrow> nat \<Rightarrow> nat \<Rightarrow> nat \<Rightarrow> nat \<times> nat \<times> nat \<Rightarrow> buffer \<Rightarrow> buffer" where
  "backward_reference_cell data dzdy width height poolSize poolStride =
     (\<lambda>(c, ph, pw) dzdx.
        let pooledWidth = (width - poolSize) div poolStride + 1;
            pooledHeight = (height - poolSize) div poolStride + 1
        in case argmax_first data (c * (width * height))
                  (cell_window width height poolSize poolStride ph pw) of
             None \<Rightarrow> dzdx
           | Some best \<Rightarrow>
               dzdx[c * (width * height) + best :=
                 dzdx ! (c * (width * height) + best)
                   + dzdy ! (c * (pooledWidth * pooledHeight) + (ph * pooledWidth + pw))])"

definition backward_reference ::
  "buffer \<Rightarrow> buffer \<Rightarrow> buffer \<Rightarrow> nat \<Rightarrow> nat \<Rightarrow> nat \<Rightarrow> nat \<Rightarrow> nat \<Rightarrow> buffer" where
  "backward_reference dzdx data dzdy width height depth poolSize poolStride =
     fold (backward_reference_cell data dzdy width height poolSize poolStride)
       (output_cells depth ((height - poolSize) div poolStride + 1)
          ((width - poolSize) div poolStride + 1))
       dzdx"

subsection \<open>Auxiliary functions of the proofs\<close>




section \<open>Running the operators on concrete volumes\<close>

lemma for_loop_unroll:
  "for_loop lo hi body s =
     (if lo < hi then (case body lo s of None \<Rightarrow> None | Some s' \<Rightarrow> for_loop (Suc lo) hi body s')
      else Some s)"
  by (cases "lo < hi") (simp_all add: for_loop_def upt_conv_Cons split: option.split)

lemmas run_defs =
  for_loop_unroll rd_def wr_def Let_def launch_def atomicAdd_def FLT_MAX_def argmax_scan_def
  maxPooling_cpu_def maxPooling_cpu_plane_def maxPooling_cpu_window_def
  maxPooling_gpu_def maxPooling_gpu_kernel_def
  maxPoolingBackward_cpu_def maxPoolingBackward_cpu_cell_def
  maxPoolingBackward_gpu_def maxPoolingBackward_gpu_kernel_def

lemmas reference_defs =
  pooled_reference_def cell_window_def window_indices_def argmax_first_def Let_def
  backward_reference_def backward_reference_cell_def output_cells_def

text \<open>
  Claim C2. The claim: each forward operator writes into every pooled cell the maximum
  of the data over the clipped window of the cell. The sequential operator does not
  initialise the cell: it takes the maximum of the window and of what the pooled
  buffer held before the call (line 38). On a 1x1 volume holding \<open>-1\<close> and a pooled
  buffer holding \<open>0\<close> it leaves \<open>0\<close>, and the maximum of the window is \<open>-1\<close>.
\<close>

theorem maxPooling_cpu_keeps_initial_cell:
  "maxPooling_cpu [0] [-1] 1 1 1 1 1 = Some [0] \<and> pooled_reference [-1] 1 1 1 1 0 0 0 = -1"
  by (simp add: run_defs reference_defs)

text \<open>
  Claim C3. The claim: on the same input the sequential and the parallel forward
  operator produce identical pooled volumes. On a 2x2 volume of negative values, one
  window, and a pooled buffer holding \<open>0\<close>, the sequential operator leaves \<open>0\<close> and the
  parallel one writes \<open>-1\<close>.
\<close>

theorem forward_backends_differ:
  "launch_order (CAFFE_GET_BLOCKS 1 1) 1 [(0, 0)] \<and>
   maxPooling_cpu [0] [-1, -2, -3, -4] 2 2 1 2 2 = Some [0] \<and>
   maxPooling_gpu 1 [(0, 0)] [0] [-1, -2, -3, -4] 2 2 1 2 2 = Some [-1]"
  by (simp add: run_defs launch_order_def CAFFE_GET_BLOCKS_def upt_rec)

text \<open>
  Claim C10. The claim: the result of the sequential forward operator does not depend
  on the initial contents of the pooled buffer. On the 1x1 volume holding \<open>1\<close>, the
  initial pooled buffers \<open>[0]\<close> and \<open>[5]\<close> give the results \<open>[1]\<close> and \<open>[5]\<close>.
\<close>

theorem maxPooling_cpu_depends_on_initial_pooled:
  "maxPooling_cpu [0] [1] 1 1 1 1 1 = Some [1] \<and> maxPooling_cpu [5] [1] 1 1 1 1 1 = Some [5]"
  by (simp add: run_defs)

text \<open>
  Claim C1. The claim: the parallel backward operator adds to every cell of \<open>dzdx\<close> the
  same total as the sequential one. The kernel advances \<open>bottom_data\<close> to the plane of
  its channel (line 227) and not \<open>bottom_diff\<close> (line 244), so every gradient lands
  in the plane of channel 0. On a 1x1 volume of two channels the sequential operator
  gives \<open>[10, 20]\<close> and the parallel one \<open>[30, 0]\<close>.
\<close>

theorem backward_gpu_writes_channel_0:
  "launch_order (CAFFE_GET_BLOCKS 2 2) 2 [(0, 0), (0, 1)] \<and>
   maxPoolingBackward_cpu [0, 0] [1, 2] [10, 20] 1 1 2 1 1 = Some [10, 20] \<and>
   maxPoolingBackward_gpu 2 [(0, 0), (0, 1)] [0, 0] [1, 2] [10, 20] 1 1 2 1 1 = Some [30, 0]"
  by (simp add: run_defs launch_order_def CAFFE_GET_BLOCKS_def upt_rec)

text \<open>
  Claim C8. The claim: for single and for double precision the running maximum of a
  work unit of the parallel forward operator starts at negative infinity or at the
  smallest value of the scalar type. The kernel starts at \<open>- FLT_MAX\<close> for both types
  (line 91). The double \<open>- 2 ^ 129\<close> is below it: on the 1x1 volume holding it the
  operator writes \<open>- FLT_MAX\<close>.
\<close>

theorem maxPooling_gpu_double_below_FLT_MAX:
  "- DBL_MAX \<le> - (2 ^ 129) \<and> - (2 ^ 129) < - FLT_MAX \<and>
   maxPooling_gpu 1 [(0, 0)] [0] [- (2 ^ 129)] 1 1 1 1 1 = Some [- FLT_MAX]"
  by (simp add: run_defs DBL_MAX_def)

section \<open>The boundary guard of the kernels\<close>

text \<open>
  Claim C9. In both kernels a work unit whose flattened index
  \<open>threadIdx + blockIdx * blockDim\<close> is not below the work count \<open>nthreads\<close> returns at
  once and leaves the memory as it is. The statement holds for all buffers, also for
  empty ones, where any read or write would fail: the work unit makes no access.
\<close>

theorem kernels_guard:
  "nthreads \<le> threadIdx + blockIdx * blockDim \<Longrightarrow>
     maxPooling_gpu_kernel blockDim blockIdx threadIdx nthreads bottom_data num channels height
       width pooled_height pooled_width ksize stride top_data = Some top_data \<and>
     maxPoolingBackward_gpu_kernel blockDim blockIdx threadIdx nthreads bottom_data top_diff num
       channels height width pooled_height pooled_width ksize stride bottom_diff = Some bottom_diff"
  by (simp add: maxPooling_gpu_kernel_def maxPoolingBackward_gpu_kernel_def)

theorem kernels_guard_witness:
  "(3::nat) \<le> 1 + 1 * 2 \<and>
   maxPooling_gpu_kernel 2 1 1 3 [] 1 1 1 1 1 1 1 1 [] = Some [] \<and>
   maxPoolingBackward_gpu_kernel 2 1 1 3 [] [] 1 1 1 1 1 1 1 1 [] = Some []"
proof -
  have h: "(3::nat) \<le> 1 + 1 * 2" by simp
  show ?thesis
    using h kernels_guard [OF h, of "[]" 1 1 1 1 1 1 1 1 "[]" "[]" "[]"] by simp
qed

section \<open>Loops whose accesses succeed\<close>


lemma for_each_append:
  "for_each (xs @ ys) body s = (case for_each xs body s of None \<Rightarrow> None | Some s' \<Rightarrow> for_each ys body s')"
  by (induction xs arbitrary: s) (simp_all split: option.split)





section \<open>The arg-max scan\<close>







section \<open>Geometry of the windows\<close>









section \<open>The sequential backward operator\<close>






text \<open>
  What \<open>argmax_first\<close> returns: a position of the window whose value no position
  exceeds and that every position scanned before it stays strictly below.
\<close>

lemma argmax_first_scan_order:
  assumes "argmax_first data p idxs = Some b"
  shows "\<exists>before after. idxs = before @ b # after
           \<and> (\<forall>j \<in> set before. data ! (p + j) < data ! (p + b))
           \<and> (\<forall>j \<in> set idxs. data ! (p + j) \<le> data ! (p + b))"
proof -
  let ?P = "\<lambda>i. \<forall>j \<in> set idxs. data ! (p + j) \<le> data ! (p + i)"
  from assms obtain k where k: "k < length idxs" "?P (idxs ! k)" "b = idxs ! k"
    and first: "\<forall>j < k. \<not> ?P (idxs ! j)"
    unfolding argmax_first_def find_Some_iff by blast
  have split: "idxs = take k idxs @ b # drop (Suc k) idxs"
    using k(1,3) by (simp add: id_take_nth_drop)
  have "data ! (p + j) < data ! (p + b)" if "j \<in> set (take k idxs)" for j
  proof -
    from that obtain m where m: "m < k" "j = idxs ! m"
      using k(1) by (auto simp: in_set_conv_nth)
    with first obtain j' where j': "j' \<in> set idxs" "\<not> data ! (p + j') \<le> data ! (p + j)"
      by blast
    from k(2,3) j'(1) have "data ! (p + j') \<le> data ! (p + b)" by simp
    with j'(2) show ?thesis by simp
  qed
  with split k(2,3) show ?thesis by blast
qed



section \<open>Gradient mass\<close>










section \<open>The parallel backward operator\<close>










section \<open>The forward operators stay in range\<close>






section \<open>Memory safety\<close>



section \<open>The shape law\<close>






end
